theory Spec2Isabelle
  imports Main
begin

section \<open>Values thrown, stream events and the external client\<close>

text \<open>
  A JavaScript value that can be thrown. \<open>ErrorObj name message\<close> is an object for which
  \<^verbatim>\<open>instanceof Error\<close> holds (an \<^verbatim>\<open>Error\<close>, one of its subclasses, or a
  \<^verbatim>\<open>DOMException\<close>), with its \<^verbatim>\<open>name\<close> and \<^verbatim>\<open>message\<close>; \<open>NonError\<close> is any
  other thrown value.
\<close>

datatype thrown = ErrorObj (err_name: string) (err_message: string) | NonError string

text \<open>\<^verbatim>\<open>new Error(msg)\<close>: the name of a plain \<^verbatim>\<open>Error\<close> is \<^verbatim>\<open>'Error'\<close>.\<close>

definition new_Error :: "string \<Rightarrow> thrown" where
  "new_Error msg = ErrorObj ''Error'' msg"

text \<open>
  The payload of an error event, \<^verbatim>\<open>event.value.error\<close>: the source reads it with
  \<^verbatim>\<open>error?.message\<close>, so both the error object and its message may be missing.
\<close>

datatype structured_error = StructuredError (message: "string option")

text \<open>
  \<^verbatim>\<open>ServerGeminiStreamEvent\<close>, by \<^verbatim>\<open>event.type\<close>. Of a tool call request only the
  \<^verbatim>\<open>name\<close> is read. \<open>Other\<close> stands for every event type the \<^verbatim>\<open>switch\<close> leaves to
  its \<^verbatim>\<open>default\<close> arm, tagged with its type.
\<close>

datatype event =
    Content string
  | Finished
  | Error "structured_error option"
  | ToolCallRequest string
  | Other string

text \<open>
  One step of the asynchronous generator that \<^verbatim>\<open>sendMessageStream\<close> returns: it yields
  an event or it throws. A stream is the list of the steps its generator takes, and the
  generator is done at the end of the list; after a throw it takes no further step, so
  what follows a \<open>Throw\<close> in a list is never looked at.
\<close>

datatype step = Yield event | Throw thrown

record abort_signal =
  aborted :: bool

record AbortController =
  signal :: abort_signal

text \<open>\<^verbatim>\<open>new AbortController()\<close>: the signal of a new controller is not aborted.\<close>

definition new_AbortController :: AbortController where
  "new_AbortController = \<lparr>signal = \<lparr>aborted = False\<rparr>\<rparr>"

text \<open>
  \<^verbatim>\<open>GeminiClient\<close>, as far as the facade uses it. \<open>sendMessageStream message signal
  promptId\<close> is \<open>Inl e\<close> when the call itself throws \<open>e\<close>, and the steps of the stream
  otherwise.
\<close>

record GeminiClient =
  isInitialized :: bool
  sendMessageStream :: "string \<Rightarrow> abort_signal \<Rightarrow> string \<Rightarrow> thrown + step list"

datatype model_id = DEFAULT_GEMINI_MODEL_AUTO | DEFAULT_GEMINI_EMBEDDING_MODEL

datatype ApprovalMode = DEFAULT

record Config =
  sessionId :: string
  targetDir :: string
  cwd :: string
  debugMode :: bool
  model :: model_id
  embeddingModel :: model_id
  approvalMode :: ApprovalMode
  initialized :: bool

record SimpleAgent =
  config :: Config
  client :: GeminiClient

section \<open>sendMessage\<close>

text \<open>
  The optional \<^verbatim>\<open>onStream\<close> callback. It is the caller's code, so it may throw: applied
  to the chunks it has been invoked with during this call (the current chunk last), it gives
  \<open>None\<close> when the invocation returns and \<open>Some e\<close> when it throws \<open>e\<close>.
\<close>

type_synonym callback = "string list \<Rightarrow> thrown option"

text \<open>
  What a call does besides settling its promise: the arguments of each \<^verbatim>\<open>onStream\<close>
  invocation, the lines written by \<^verbatim>\<open>console.log\<close>, and the arguments of each call of
  \<^verbatim>\<open>client.sendMessageStream\<close>, all in order.
\<close>

record effects =
  onStream_calls :: "string list"
  console :: "string list"
  stream_calls :: "(string \<times> abort_signal \<times> string) list"

text \<open>\<^verbatim>\<open>a || b\<close> for \<open>a\<close> a string or undefined: the empty string is falsy.\<close>

definition js_or :: "string option \<Rightarrow> string \<Rightarrow> string" where
  "js_or a b = (case a of None \<Rightarrow> b | Some s \<Rightarrow> if s = [] then b else s)"

text \<open>\<^verbatim>\<open>event.value.error?.message\<close>\<close>

definition error_message :: "structured_error option \<Rightarrow> string option" where
  "error_message err = (case err of None \<Rightarrow> None | Some se \<Rightarrow> message se)"

text \<open>
  The \<^verbatim>\<open>for await\<close> loop with its \<^verbatim>\<open>switch\<close>, over the steps still to come, the
  local \<^verbatim>\<open>fullResponse\<close> and the effects so far. \<open>Inr\<close> is a \<^verbatim>\<open>return\<close> (from inside
  the loop, or after it when the stream is done), \<open>Inl\<close> a \<^verbatim>\<open>throw\<close> out of the loop.
\<close>

fun for_await ::
  "callback option \<Rightarrow> step list \<Rightarrow> string \<Rightarrow> effects \<Rightarrow> (thrown + string) \<times> effects" where
  "for_await onStream [] fullResponse fx = (Inr fullResponse, fx)"
| "for_await onStream (Throw e # stream) fullResponse fx = (Inl e, fx)"
| "for_await onStream (Yield (Content v) # stream) fullResponse fx =
     (case onStream of
        None \<Rightarrow> for_await onStream stream (fullResponse @ v) fx
      | Some f \<Rightarrow>
          (let fx' = fx\<lparr>onStream_calls := onStream_calls fx @ [v]\<rparr> in
           case f (onStream_calls fx') of
             Some e \<Rightarrow> (Inl e, fx')
           | None \<Rightarrow> for_await onStream stream (fullResponse @ v) fx'))"
| "for_await onStream (Yield Finished # stream) fullResponse fx = (Inr fullResponse, fx)"
| "for_await onStream (Yield (Error err) # stream) fullResponse fx =
     (Inl (new_Error (js_or (error_message err) ''Unknown error occurred'')), fx)"
| "for_await onStream (Yield (ToolCallRequest name) # stream) fullResponse fx =
     for_await onStream stream fullResponse
       (fx\<lparr>console := console fx @ [''Tool call requested: '' @ name]\<rparr>)"
| "for_await onStream (Yield (Other ty) # stream) fullResponse fx =
     for_await onStream stream fullResponse fx"

text \<open>Decimal digits of a timestamp, as the template literal renders an integral number.\<close>

fun show_nat :: "nat \<Rightarrow> string" where
  "show_nat n =
     (if n < 10 then [char_of (48 + n)]
      else show_nat (n div 10) @ [char_of (48 + n mod 10)])"

declare show_nat.simps [simp del]

definition show_int :: "int \<Rightarrow> string" where
  "show_int i = (if i < 0 then CHR ''-'' # show_nat (nat (- i)) else show_nat (nat i))"

text \<open>
  \<^verbatim>\<open>`${this.config.getSessionId()}-${Date.now()}`\<close>, with \<open>now\<close> the value of
  \<^verbatim>\<open>Date.now()\<close> (milliseconds since the epoch).
\<close>

definition promptId :: "SimpleAgent \<Rightarrow> int \<Rightarrow> string" where
  "promptId agent now = sessionId (config agent) @ ''-'' @ show_int now"

text \<open>
  The body of the \<^verbatim>\<open>try\<close>: opening the stream and consuming it. \<open>fullResponse\<close> starts
  empty.
\<close>

definition try_block ::
  "SimpleAgent \<Rightarrow> string \<Rightarrow> callback option \<Rightarrow> string \<Rightarrow> AbortController \<Rightarrow>
     (thrown + string) \<times> effects" where
  "try_block agent msg onStream pid abortController =
     (let fx = \<lparr>onStream_calls = [], console = [],
                stream_calls = [(msg, signal abortController, pid)]\<rparr>
      in case sendMessageStream (client agent) msg (signal abortController) pid of
           Inl e \<Rightarrow> (Inl e, fx)
         | Inr stream \<Rightarrow> for_await onStream stream [] fx)"

text \<open>\<^verbatim>\<open>error instanceof Error && error.name === 'AbortError'\<close>\<close>

fun is_abort :: "thrown \<Rightarrow> bool" where
  "is_abort (ErrorObj name msg) = (name = ''AbortError'')"
| "is_abort (NonError v) = False"

text \<open>The \<^verbatim>\<open>catch\<close> clause: what it throws for the value caught.\<close>

definition catch_block :: "thrown \<Rightarrow> thrown" where
  "catch_block error = (if is_abort error then new_Error ''Request cancelled'' else error)"

text \<open>
  \<^verbatim>\<open>SimpleAgent.sendMessage\<close> at time \<open>now\<close>: \<open>Inr\<close> the text the promise resolves to,
  \<open>Inl\<close> the value it rejects with, and the effects of the call.
\<close>

definition sendMessage ::
  "SimpleAgent \<Rightarrow> int \<Rightarrow> string \<Rightarrow> callback option \<Rightarrow> (thrown + string) \<times> effects" where
  "sendMessage agent now msg onStream =
     (let pid = promptId agent now;
          abortController = new_AbortController
      in case try_block agent msg onStream pid abortController of
           (Inr fullResponse, fx) \<Rightarrow> (Inr fullResponse, fx)
         | (Inl error, fx) \<Rightarrow> (Inl (catch_block error), fx))"

section \<open>create\<close>

text \<open>
  Modelled from the spec: the library behind \<^verbatim>\<open>create\<close> (\<^verbatim>\<open>uuidv4\<close>,
  \<^verbatim>\<open>Config.initialize\<close>, \<^verbatim>\<open>Config.getGeminiClient\<close>, \<^verbatim>\<open>GeminiClient.initialize\<close>)
  is imported, not part of the source. Each asynchronous initialisation either fails with a
  thrown value or completes; completing leaves the object initialised ("must be explicitly
  initialized before use").
\<close>

record library =
  uuidv4 :: string
  config_initialize :: "thrown option"
  getGeminiClient :: GeminiClient
  client_initialize :: "thrown option"

definition Config_initialize :: "library \<Rightarrow> Config \<Rightarrow> thrown + Config" where
  "Config_initialize lib c =
     (case config_initialize lib of
        Some e \<Rightarrow> Inl e
      | None \<Rightarrow> Inr (c\<lparr>initialized := True\<rparr>))"

definition GeminiClient_initialize :: "library \<Rightarrow> GeminiClient \<Rightarrow> thrown + GeminiClient" where
  "GeminiClient_initialize lib c =
     (case client_initialize lib of
        Some e \<Rightarrow> Inl e
      | None \<Rightarrow> Inr (c\<lparr>isInitialized := True\<rparr>))"

text \<open>
  \<^verbatim>\<open>SimpleAgent.create\<close>: \<open>Inl\<close> is the rejection of the promise, \<open>Inr\<close> the facade it
  resolves to.
\<close>

definition create :: "library \<Rightarrow> string \<Rightarrow> thrown + SimpleAgent" where
  "create lib workspaceRoot =
     (let cfg = \<lparr>sessionId = uuidv4 lib, targetDir = workspaceRoot, cwd = workspaceRoot,
                 debugMode = False, model = DEFAULT_GEMINI_MODEL_AUTO,
                 embeddingModel = DEFAULT_GEMINI_EMBEDDING_MODEL,
                 approvalMode = DEFAULT, initialized = False\<rparr>
      in case Config_initialize lib cfg of
           Inl e \<Rightarrow> Inl e
         | Inr cfg' \<Rightarrow>
             (let cl = getGeminiClient lib
              in if \<not> isInitialized cl
                 then (case GeminiClient_initialize lib cl of
                         Inl e \<Rightarrow> Inl e
                       | Inr cl' \<Rightarrow> Inr \<lparr>config = cfg', client = cl'\<rparr>)
                 else Inr \<lparr>config = cfg', client = cl\<rparr>))"

section \<open>Vocabulary of the statements\<close>

text \<open>The stream that the client opens for a call of \<open>sendMessage\<close> at time \<open>now\<close>.\<close>

definition opened_stream :: "SimpleAgent \<Rightarrow> int \<Rightarrow> string \<Rightarrow> thrown + step list" where
  "opened_stream agent now msg =
     sendMessageStream (client agent) msg (signal new_AbortController) (promptId agent now)"

text \<open>
  A step after which the loop goes on to the next one: a content chunk, a tool call
  request or an ignored event; not \<open>Finished\<close>, not an error event, not a throw.
\<close>

fun passes :: "step \<Rightarrow> bool" where
  "passes (Yield (Content v)) = True"
| "passes (Yield (ToolCallRequest name)) = True"
| "passes (Yield (Other ty)) = True"
| "passes (Yield Finished) = False"
| "passes (Yield (Error err)) = False"
| "passes (Throw e) = False"

text \<open>The payloads of the content chunks among some steps, in order.\<close>

fun chunks :: "step list \<Rightarrow> string list" where
  "chunks [] = []"
| "chunks (Yield (Content v) # stream) = v # chunks stream"
| "chunks (s # stream) = chunks stream"

text \<open>The lines logged for the tool call requests among some steps, in order.\<close>

fun tool_lines :: "step list \<Rightarrow> string list" where
  "tool_lines [] = []"
| "tool_lines (Yield (ToolCallRequest name) # stream) =
     (''Tool call requested: '' @ name) # tool_lines stream"
| "tool_lines (s # stream) = tool_lines stream"

text \<open>A callback that returns from every invocation (or no callback at all).\<close>

definition never_throws :: "callback option \<Rightarrow> bool" where
  "never_throws onStream = (\<forall>f tr. onStream = Some f \<longrightarrow> f tr = None)"

text \<open>What a callback has been invoked with once the loop has gone past some steps.\<close>

definition delivered :: "callback option \<Rightarrow> step list \<Rightarrow> string list" where
  "delivered onStream stream = (case onStream of None \<Rightarrow> [] | Some f \<Rightarrow> chunks stream)"

text \<open>The effects of a call before its loop starts: the stream has been requested.\<close>

definition initial_effects :: "SimpleAgent \<Rightarrow> int \<Rightarrow> string \<Rightarrow> effects" where
  "initial_effects agent now msg =
     \<lparr>onStream_calls = [], console = [],
      stream_calls = [(msg, signal new_AbortController, promptId agent now)]\<rparr>"

text \<open>The request identifiers a call has passed to the client.\<close>

definition request_ids :: "(thrown + string) \<times> effects \<Rightarrow> string list" where
  "request_ids out = map (\<lambda>(msg, sig, pid). pid) (stream_calls (snd out))"

text \<open>The messages a call has passed to the client.\<close>

definition forwarded :: "(thrown + string) \<times> effects \<Rightarrow> string list" where
  "forwarded out = map (\<lambda>(msg, sig, pid). msg) (stream_calls (snd out))"


subsection \<open>Concrete facades and callbacks\<close>

definition example_config :: Config where
  "example_config =
     \<lparr>sessionId = ''3f2a'', targetDir = ''/w'', cwd = ''/w'', debugMode = False,
      model = DEFAULT_GEMINI_MODEL_AUTO, embeddingModel = DEFAULT_GEMINI_EMBEDDING_MODEL,
      approvalMode = DEFAULT, initialized = True\<rparr>"

text \<open>A facade whose client answers every request in the same way.\<close>

definition agent_with :: "thrown + step list \<Rightarrow> SimpleAgent" where
  "agent_with answer =
     \<lparr>config = example_config,
      client = \<lparr>isInitialized = True, sendMessageStream = (\<lambda>msg sig pid. answer)\<rparr>\<rparr>"

text \<open>A callback that returns from every invocation.\<close>

definition quiet_callback :: callback where
  "quiet_callback tr = None"


text \<open>A library whose initialisations all complete, and one whose client fails.\<close>

definition good_library :: library where
  "good_library =
     \<lparr>uuidv4 = ''3f2a'', config_initialize = None,
      getGeminiClient = \<lparr>isInitialized = False, sendMessageStream = (\<lambda>msg sig pid. Inr [])\<rparr>,
      client_initialize = None\<rparr>"

definition bad_client_library :: library where
  "bad_client_library = good_library\<lparr>client_initialize := Some (new_Error ''no credentials'')\<rparr>"

definition bad_config_library :: library where
  "bad_config_library = good_library\<lparr>config_initialize := Some (new_Error ''no settings'')\<rparr>"

text \<open>A facade whose client answers a request with the message itself, then finishes.\<close>

definition echo_agent :: SimpleAgent where
  "echo_agent =
     \<lparr>config = example_config,
      client = \<lparr>isInitialized = True,
                sendMessageStream = (\<lambda>msg sig pid. Inr [Yield (Content msg), Yield Finished])\<rparr>\<rparr>"

section \<open>The loop over a prefix of passing steps\<close>



text \<open>
  Past steps that all pass, with a callback that returns, the loop has appended every chunk
  to \<open>fullResponse\<close>, handed every chunk to the callback and logged every tool call.
\<close>

lemma for_await_passes:
  assumes "never_throws onStream" and "list_all passes pre"
  shows "for_await onStream (pre @ rest) acc fx =
         for_await onStream rest (acc @ concat (chunks pre))
           (fx\<lparr>onStream_calls := onStream_calls fx @ delivered onStream pre,
               console := console fx @ tool_lines pre\<rparr>)"
  using assms(2)
proof (induction pre arbitrary: acc fx)
  case Nil
  show ?case by (simp add: delivered_def split: option.split)
next
  case (Cons s pre)
  then have p: "passes s" and ps: "list_all passes pre" by simp_all
  from p show ?case
  proof (cases s rule: passes.cases)
    case (1 v)
    show ?thesis
    proof (cases onStream)
      case None
      then show ?thesis using 1 Cons.IH [OF ps] by (simp add: delivered_def)
    next
      case (Some f)
      with assms(1) have "\<And>tr. f tr = None" by (simp add: never_throws_def)
      then show ?thesis using 1 Some Cons.IH [OF ps] by (simp add: delivered_def)
    qed
  next
    case (2 name)
    then show ?thesis using Cons.IH [OF ps] by (simp add: delivered_def split: option.split)
  next
    case (3 ty)
    then show ?thesis using Cons.IH [OF ps] by (simp add: delivered_def split: option.split)
  qed simp_all
qed

text \<open>\<open>sendMessage\<close> and its \<^verbatim>\<open>try\<close> body, in terms of the stream the client opens.\<close>

lemma sendMessage_opened:
  "sendMessage agent now msg onStream =
     (case opened_stream agent now msg of
        Inl e \<Rightarrow> (Inl (catch_block e), initial_effects agent now msg)
      | Inr stream \<Rightarrow>
          (case for_await onStream stream [] (initial_effects agent now msg) of
             (Inr r, fx) \<Rightarrow> (Inr r, fx)
           | (Inl e, fx) \<Rightarrow> (Inl (catch_block e), fx)))"
  by (simp add: sendMessage_def try_block_def opened_stream_def initial_effects_def
      split: sum.split)


lemma opened_agent_with [simp]: "opened_stream (agent_with answer) now msg = answer"
  by (simp add: opened_stream_def agent_with_def)

lemma never_throws_simps [simp]:
  "never_throws None" "never_throws (Some quiet_callback)"
  by (simp_all add: never_throws_def quiet_callback_def)

section \<open>Content chunks followed by a finished event\<close>



section \<open>Error events\<close>

text \<open>
  C2, as the code has it. When the first step of the stream that does not pass is an error
  event, and the callback returns from its invocations, \<open>sendMessage\<close> fails with a plain
  \<^verbatim>\<open>Error\<close> whose message is the message embedded in the event when there is one and it
  is not empty, and \<^verbatim>\<open>'Unknown error occurred'\<close> when the event has no error object, no
  message, or an empty message.
\<close>

theorem sendMessage_error_event:
  assumes "opened_stream agent now msg = Inr (pre @ Yield (Error err) # rest)"
    and "list_all passes pre"
    and "never_throws onStream"
  shows "fst (sendMessage agent now msg onStream) =
           Inl (new_Error (case error_message err of
                             None \<Rightarrow> ''Unknown error occurred''
                           | Some x \<Rightarrow> if x = [] then ''Unknown error occurred'' else x))"
  using assms(1)
  by (simp add: sendMessage_opened for_await_passes [OF assms(3) assms(2)] js_or_def
      catch_block_def new_Error_def)

theorem sendMessage_error_event_witness:
  "fst (sendMessage
         (agent_with (Inr [Yield (Content ''par''),
                           Yield (Error (Some (StructuredError (Some ''quota exceeded''))))]))
         1700000000000 ''ping'' None) = Inl (ErrorObj ''Error'' ''quota exceeded'')"
  using sendMessage_error_event
    [of "agent_with (Inr [Yield (Content ''par''),
                          Yield (Error (Some (StructuredError (Some ''quota exceeded''))))])"
      1700000000000 "''ping''" "[Yield (Content ''par'')]" _ "[]" None]
  by (simp add: error_message_def new_Error_def)

text \<open>
  C2 as stated fails for an error event whose embedded message is the empty string: the
  event has a message, and the call fails with the default message instead of it.
\<close>

theorem sendMessage_empty_error_message:
  "error_message (Some (StructuredError (Some ''''))) = Some '''' \<and>
   fst (sendMessage (agent_with (Inr [Yield (Error (Some (StructuredError (Some ''''))))]))
         1700000000000 ''ping'' None) = Inl (ErrorObj ''Error'' ''Unknown error occurred'')"
  by (simp add: sendMessage_opened error_message_def js_or_def catch_block_def new_Error_def)

section \<open>Exceptions of the client and of the stream\<close>

text \<open>
  C3. When the call that opens the stream throws \<open>e\<close>, or the stream throws \<open>e\<close> after
  steps that all pass (with a callback that returns), \<open>sendMessage\<close> fails: with the new
  error \<^verbatim>\<open>Error('Request cancelled')\<close> when \<open>e\<close> is an \<^verbatim>\<open>Error\<close> named
  \<^verbatim>\<open>'AbortError'\<close>, whatever the message of \<open>e\<close>, and with \<open>e\<close> itself otherwise.
\<close>

theorem sendMessage_exception:
  assumes "opened_stream agent now msg = Inl e \<or>
           (\<exists>pre rest. opened_stream agent now msg = Inr (pre @ Throw e # rest) \<and>
              list_all passes pre \<and> never_throws onStream)"
  shows "fst (sendMessage agent now msg onStream) =
           Inl (if is_abort e then new_Error ''Request cancelled'' else e)"
  using assms
proof
  assume "opened_stream agent now msg = Inl e"
  then show ?thesis by (simp add: sendMessage_opened catch_block_def)
next
  assume "\<exists>pre rest. opened_stream agent now msg = Inr (pre @ Throw e # rest) \<and>
              list_all passes pre \<and> never_throws onStream"
  then obtain pre rest where o: "opened_stream agent now msg = Inr (pre @ Throw e # rest)"
    and p: "list_all passes pre" and n: "never_throws onStream" by blast
  show ?thesis using o
    by (simp add: sendMessage_opened for_await_passes [OF n p] catch_block_def)
qed

theorem sendMessage_exception_witness:
  "fst (sendMessage
         (agent_with (Inr [Yield (Content ''par''),
                           Throw (ErrorObj ''AbortError'' ''The operation was aborted'')]))
         1700000000000 ''ping'' None) = Inl (ErrorObj ''Error'' ''Request cancelled'') \<and>
   fst (sendMessage (agent_with (Inl (ErrorObj ''TypeError'' ''fetch failed'')))
         1700000000000 ''ping'' None) = Inl (ErrorObj ''TypeError'' ''fetch failed'')"
proof -
  let ?e = "ErrorObj ''AbortError'' ''The operation was aborted''"
  let ?A = "agent_with (Inr [Yield (Content ''par''), Throw ?e])"
  have "\<exists>pre rest. opened_stream ?A 1700000000000 ''ping'' = Inr (pre @ Throw ?e # rest) \<and>
          list_all passes pre \<and> never_throws None"
    by (rule exI [of _ "[Yield (Content ''par'')]"], rule exI [of _ "[]"]) simp
  then have h: "opened_stream ?A 1700000000000 ''ping'' = Inl ?e \<or>
      (\<exists>pre rest. opened_stream ?A 1700000000000 ''ping'' = Inr (pre @ Throw ?e # rest) \<and>
          list_all passes pre \<and> never_throws None)" ..
  show ?thesis
    using sendMessage_exception [OF h]
      sendMessage_exception [of "agent_with (Inl (ErrorObj ''TypeError'' ''fetch failed''))"
        1700000000000 "''ping''" "ErrorObj ''TypeError'' ''fetch failed''" None]
    by (simp add: new_Error_def)
qed

section \<open>A stream that ends without a finished event\<close>



section \<open>What a failing loop depends on\<close>



text \<open>
  Whatever the loop throws was thrown by the stream, built from an error event of the
  stream, or thrown by the callback.
\<close>

lemma for_await_failure_origin:
  "fst (for_await onStream stream acc fx) = Inl e \<Longrightarrow>
   Throw e \<in> set stream \<or>
   (\<exists>err. Yield (Error err) \<in> set stream \<and>
          e = new_Error (js_or (error_message err) ''Unknown error occurred'')) \<or>
   (\<exists>f tr. onStream = Some f \<and> f tr = Some e)"
proof (induction onStream stream acc fx rule: for_await.induct)
  case (3 onStream v stream fullResponse fx)
  show ?case
  proof (cases onStream)
    case None
    with 3 show ?thesis by auto
  next
    case (Some f)
    show ?thesis
    proof (cases "f (onStream_calls fx @ [v])")
      case None
      with Some "3.prems" "3.IH"(2) [of f "fx\<lparr>onStream_calls := onStream_calls fx @ [v]\<rparr>"]
      show ?thesis by auto
    next
      case (Some e')
      with \<open>onStream = Some f\<close> "3.prems" have "f (onStream_calls fx @ [v]) = Some e"
        by auto
      with \<open>onStream = Some f\<close> show ?thesis by blast
    qed
  qed
next
  case (5 onStream err stream fullResponse fx)
  then show ?case by auto
qed auto

lemma sendMessage_stream:
  assumes "opened_stream agent now msg = Inr stream"
  shows "sendMessage agent now msg onStream =
           (map_sum catch_block id
              (fst (for_await onStream stream [] (initial_effects agent now msg))),
            snd (for_await onStream stream [] (initial_effects agent now msg)))"
  using assms by (simp add: sendMessage_opened split: prod.split sum.split)

section \<open>All or nothing\<close>



section \<open>Tool call requests\<close>

text \<open>The console does not influence what the loop returns or hands to the callback.\<close>

lemma for_await_console:
  "onStream_calls fx = onStream_calls fx2 \<Longrightarrow>
   fst (for_await onStream stream acc fx) = fst (for_await onStream stream acc fx2) \<and>
   onStream_calls (snd (for_await onStream stream acc fx)) =
     onStream_calls (snd (for_await onStream stream acc fx2))"
proof (induction onStream stream acc fx arbitrary: fx2 rule: for_await.induct)
  case (3 onStream v stream fullResponse fx)
  show ?case
  proof (cases onStream)
    case None
    with 3 show ?thesis by simp
  next
    case (Some f)
    show ?thesis
    proof (cases "f (onStream_calls fx @ [v])")
      case None
      with Some "3.prems"
        "3.IH"(2) [of f "fx\<lparr>onStream_calls := onStream_calls fx @ [v]\<rparr>"
                      "fx2\<lparr>onStream_calls := onStream_calls fx2 @ [v]\<rparr>"]
      show ?thesis by simp
    next
      case (Some e')
      with \<open>onStream = Some f\<close> "3.prems" show ?thesis by simp
    qed
  qed
next
  case (6 onStream name stream fullResponse fx)
  show ?case
    using "6.prems"
      "6.IH" [of "fx2\<lparr>console := console fx2 @ [''Tool call requested: '' @ name]\<rparr>"]
    by simp
qed simp_all

lemma for_await_tool_call:
  "fst (for_await onStream (pre @ Yield (ToolCallRequest name) # post) acc fx) =
     fst (for_await onStream (pre @ post) acc fx) \<and>
   onStream_calls (snd (for_await onStream (pre @ Yield (ToolCallRequest name) # post) acc fx)) =
     onStream_calls (snd (for_await onStream (pre @ post) acc fx))"
proof (induction onStream pre acc fx rule: for_await.induct)
  case (1 onStream fullResponse fx)
  show ?case
    using for_await_console
      [of "fx\<lparr>console := console fx @ [''Tool call requested: '' @ name]\<rparr>" fx onStream post
        fullResponse]
    by simp
next
  case (3 onStream v stream fullResponse fx)
  show ?case
  proof (cases onStream)
    case None
    with 3 show ?thesis by simp
  next
    case (Some f)
    show ?thesis
    proof (cases "f (onStream_calls fx @ [v])")
      case None
      with Some "3.IH"(2) [of f "fx\<lparr>onStream_calls := onStream_calls fx @ [v]\<rparr>"]
      show ?thesis by simp
    next
      case (Some e')
      with \<open>onStream = Some f\<close> show ?thesis by simp
    qed
  qed
qed simp_all

text \<open>
  C6. A tool call request in the stream changes neither the outcome of the call (the text
  returned or the failure) nor the invocations of the callback: both are those of the call
  whose stream is the same without this event, so the steps after the event are consumed
  as they would be without it.
\<close>

theorem sendMessage_tool_call_request:
  assumes "opened_stream agent now msg = Inr (pre @ Yield (ToolCallRequest name) # post)"
    and "opened_stream agent' now' msg' = Inr (pre @ post)"
  shows "fst (sendMessage agent now msg onStream) =
           fst (sendMessage agent' now' msg' onStream) \<and>
         onStream_calls (snd (sendMessage agent now msg onStream)) =
           onStream_calls (snd (sendMessage agent' now' msg' onStream))"
proof -
  let ?a = "for_await onStream (pre @ Yield (ToolCallRequest name) # post) []
              (initial_effects agent now msg)"
  let ?b = "for_await onStream (pre @ post) [] (initial_effects agent now msg)"
  let ?c = "for_await onStream (pre @ post) [] (initial_effects agent' now' msg')"
  have ab: "fst ?a = fst ?b \<and> onStream_calls (snd ?a) = onStream_calls (snd ?b)"
    by (rule for_await_tool_call)
  have bc: "fst ?b = fst ?c \<and> onStream_calls (snd ?b) = onStream_calls (snd ?c)"
    by (rule for_await_console) (simp add: initial_effects_def)
  from ab bc have ac: "fst ?a = fst ?c" "onStream_calls (snd ?a) = onStream_calls (snd ?c)"
    by simp_all
  show ?thesis using ac
    by (simp add: sendMessage_stream [OF assms(1)] sendMessage_stream [OF assms(2)])
qed

theorem sendMessage_tool_call_request_witness:
  "fst (sendMessage
         (agent_with (Inr [Yield (Content ''a''), Yield (ToolCallRequest ''read_file''),
                           Yield (Content ''b''), Yield Finished]))
         1700000000000 ''ping'' (Some quiet_callback)) =
   fst (sendMessage
         (agent_with (Inr [Yield (Content ''a''), Yield (Content ''b''), Yield Finished]))
         1700000000000 ''ping'' (Some quiet_callback)) \<and>
   onStream_calls (snd (sendMessage
         (agent_with (Inr [Yield (Content ''a''), Yield (ToolCallRequest ''read_file''),
                           Yield (Content ''b''), Yield Finished]))
         1700000000000 ''ping'' (Some quiet_callback))) =
   onStream_calls (snd (sendMessage
         (agent_with (Inr [Yield (Content ''a''), Yield (Content ''b''), Yield Finished]))
         1700000000000 ''ping'' (Some quiet_callback)))"
  using sendMessage_tool_call_request
    [of "agent_with (Inr [Yield (Content ''a''), Yield (ToolCallRequest ''read_file''),
                          Yield (Content ''b''), Yield Finished])"
      1700000000000 "''ping''" "[Yield (Content ''a'')]" "''read_file''"
      "[Yield (Content ''b''), Yield Finished]"
      "agent_with (Inr [Yield (Content ''a''), Yield (Content ''b''), Yield Finished])"
      1700000000000 "''ping''" "Some quiet_callback"]
  by simp

section \<open>What the client is called with\<close>

lemma for_await_stream_calls:
  "stream_calls (snd (for_await onStream stream acc fx)) = stream_calls fx"
proof (induction onStream stream acc fx rule: for_await.induct)
  case (3 onStream v stream fullResponse fx)
  then show ?case by (simp add: Let_def split: option.split)
qed simp_all

text \<open>
  A call opens exactly one stream: with its message, the signal of its new controller and
  its request identifier.
\<close>

lemma sendMessage_stream_calls:
  "stream_calls (snd (sendMessage agent now msg onStream)) =
     [(msg, \<lparr>aborted = False\<rparr>, promptId agent now)]"
proof (cases "opened_stream agent now msg")
  case (Inl e)
  then show ?thesis
    by (simp add: sendMessage_opened initial_effects_def new_AbortController_def)
next
  case (Inr stream)
  show ?thesis
    by (simp add: sendMessage_stream [OF Inr] for_await_stream_calls initial_effects_def
        new_AbortController_def)
qed

lemma opened_echo_agent [simp]:
  "opened_stream echo_agent now msg = Inr [Yield (Content msg), Yield Finished]"
  by (simp add: opened_stream_def echo_agent_def)

subsection \<open>Decimal rendering is injective\<close>

lemma show_nat_nonempty: "show_nat n \<noteq> []"
  by (subst show_nat.simps) simp

lemma digit_char_inj:
  assumes "a < 10" "b < 10" "char_of (48 + a) = (char_of (48 + b) :: char)"
  shows "a = (b::nat)"
proof -
  from assms(3) have "(48 + a) mod 256 = (48 + b) mod 256"
    by (simp add: char_of_eq_iff take_bit_eq_mod)
  with assms(1,2) show ?thesis by simp
qed

lemma show_nat_inj: "show_nat n = show_nat m \<Longrightarrow> n = m"
proof (induction n arbitrary: m rule: show_nat.induct)
  case (1 n)
  show ?case
  proof (cases "n < 10")
    case True
    then have n: "show_nat n = [char_of (48 + n)]" by (subst show_nat.simps) simp
    show ?thesis
    proof (cases "m < 10")
      case mt: True
      then have "show_nat m = [char_of (48 + m)]" by (subst show_nat.simps) simp
      with n "1.prems" True mt show ?thesis by (simp add: digit_char_inj)
    next
      case False
      then have "show_nat m = show_nat (m div 10) @ [char_of (48 + m mod 10)]"
        by (subst show_nat.simps) simp
      with n "1.prems" show_nat_nonempty [of "m div 10"] show ?thesis by simp
    qed
  next
    case False
    then have n: "show_nat n = show_nat (n div 10) @ [char_of (48 + n mod 10)]"
      by (subst show_nat.simps) simp
    show ?thesis
    proof (cases "m < 10")
      case True
      then have "show_nat m = [char_of (48 + m)]" by (subst show_nat.simps) simp
      with n "1.prems" show_nat_nonempty [of "n div 10"] show ?thesis by simp
    next
      case mf: False
      then have "show_nat m = show_nat (m div 10) @ [char_of (48 + m mod 10)]"
        by (subst show_nat.simps) simp
      with n "1.prems" have a: "show_nat (n div 10) = show_nat (m div 10)"
        and b: "char_of (48 + n mod 10) = (char_of (48 + m mod 10) :: char)" by simp_all
      from "1.IH" [OF False a] have d: "n div 10 = m div 10" .
      from b have "n mod 10 = m mod 10" by (intro digit_char_inj) simp_all
      with d show ?thesis by (metis div_mult_mod_eq)
    qed
  qed
qed

lemma show_nat_no_minus: "CHR ''-'' \<notin> set (show_nat n)"
proof (induction n rule: show_nat.induct)
  case (1 n)
  have d: "\<And>k::nat. k < 10 \<Longrightarrow> CHR ''-'' \<noteq> (char_of (48 + k) :: char)"
  proof
    fix k :: nat assume k: "k < 10" and "CHR ''-'' = (char_of (48 + k) :: char)"
    then have "of_char (CHR ''-'') = (of_char (char_of (48 + k) :: char) :: nat)" by simp
    with k show False by simp
  qed
  show ?case
  proof (cases "n < 10")
    case True
    then show ?thesis by (subst show_nat.simps) (simp add: d)
  next
    case False
    with "1.IH" show ?thesis by (subst show_nat.simps) (simp add: d)
  qed
qed

lemma show_int_inj: "show_int i = show_int j \<Longrightarrow> i = j"
proof -
  assume e: "show_int i = show_int j"
  have hd: "\<And>n. hd (show_nat n) \<noteq> CHR ''-''"
    using show_nat_no_minus show_nat_nonempty by (metis hd_in_set)
  show ?thesis
  proof (cases "i < 0")
    case True
    show ?thesis
    proof (cases "j < 0")
      case jt: True
      with True e have "show_nat (nat (- i)) = show_nat (nat (- j))"
        by (simp add: show_int_def)
      then have "nat (- i) = nat (- j)" by (rule show_nat_inj)
      with True jt show ?thesis by simp
    next
      case False
      with True e have "hd (show_nat (nat j)) = CHR ''-''"
        by (simp add: show_int_def) (metis list.sel(1))
      with hd show ?thesis by simp
    qed
  next
    case False
    show ?thesis
    proof (cases "j < 0")
      case True
      with False e have "hd (show_nat (nat i)) = CHR ''-''" by (simp add: show_int_def)
      with hd show ?thesis by simp
    next
      case jf: False
      with False e have "show_nat (nat i) = show_nat (nat j)" by (simp add: show_int_def)
      then have "nat i = nat j" by (rule show_nat_inj)
      with False jf show ?thesis by simp
    qed
  qed
qed

lemma promptId_eq_iff: "(promptId agent t1 = promptId agent t2) = (t1 = t2)"
  using show_int_inj by (auto simp: promptId_def)

lemma request_ids_sendMessage:
  "request_ids (sendMessage agent now msg onStream) = [promptId agent now]"
  by (simp add: request_ids_def sendMessage_stream_calls)

section \<open>Request identifiers\<close>

text \<open>
  C7, as the code has it. Every call passes the client one request identifier: the
  session identifier of the facade, a hyphen, and the timestamp of the call in decimal.
  Two calls on the same facade have the same request identifier exactly when they are made
  at the same timestamp (in the same millisecond), whatever their messages and callbacks.
\<close>

theorem request_ids_equal_iff_same_time:
  "request_ids (sendMessage agent now msg onStream) =
     [sessionId (config agent) @ ''-'' @ show_int now] \<and>
   ((request_ids (sendMessage agent t1 msg1 onStream1) =
     request_ids (sendMessage agent t2 msg2 onStream2)) = (t1 = t2))"
  by (simp add: request_ids_sendMessage promptId_eq_iff) (simp add: promptId_def)

theorem request_ids_equal_iff_same_time_witness:
  "request_ids (sendMessage echo_agent 1700000000000 ''first'' None) \<noteq>
   request_ids (sendMessage echo_agent 1700000000001 ''second'' None)"
proof -
  have "(request_ids (sendMessage echo_agent 1700000000000 ''first'' None) =
         request_ids (sendMessage echo_agent 1700000000001 ''second'' None)) =
        (1700000000000 = (1700000000001 :: int))"
    using request_ids_equal_iff_same_time
      [of echo_agent 1700000000000 "''first''" None 1700000000000 "''first''" None
        1700000000001 "''second''" None]
    by (rule conjunct2)
  then show ?thesis by simp
qed

text \<open>
  C7 as stated fails for two calls made in the same millisecond: they are different calls
  (their messages differ) on one facade, and their request identifiers are equal.
\<close>

theorem request_ids_same_millisecond:
  "''first'' \<noteq> ''second'' \<and>
   request_ids (sendMessage echo_agent 1700000000000 ''first'' None) =
   request_ids (sendMessage echo_agent 1700000000000 ''second'' None)"
  by (simp add: request_ids_sendMessage)

section \<open>Initialisation failures in create\<close>

text \<open>
  C8. When the initialisation of the configuration fails with \<open>e\<close>, \<open>create\<close> fails with
  \<open>e\<close>; when it completes, the client is not yet initialised and its initialisation fails
  with \<open>e\<close>, \<open>create\<close> fails with \<open>e\<close>: no facade is produced. When \<open>create\<close> returns a
  facade, its configuration and its client are initialised, and no initialisation that was
  run has failed.
\<close>

theorem create_initialization:
  "(config_initialize lib = Some e \<longrightarrow> create lib workspaceRoot = Inl e) \<and>
   (config_initialize lib = None \<and> \<not> isInitialized (getGeminiClient lib) \<and>
      client_initialize lib = Some e \<longrightarrow> create lib workspaceRoot = Inl e) \<and>
   (create lib workspaceRoot = Inr agent \<longrightarrow>
      initialized (config agent) \<and> isInitialized (client agent) \<and>
      config_initialize lib = None \<and>
      (isInitialized (getGeminiClient lib) \<or> client_initialize lib = None))"
  by (auto simp: create_def Config_initialize_def GeminiClient_initialize_def Let_def
      split: option.splits if_splits)

theorem create_initialization_witness:
  "create bad_config_library ''/w'' = Inl (new_Error ''no settings'') \<and>
   create bad_client_library ''/w'' = Inl (new_Error ''no credentials'') \<and>
   (case create good_library ''/w'' of
      Inl e \<Rightarrow> False
    | Inr agent \<Rightarrow> initialized (config agent) \<and> isInitialized (client agent))"
proof -
  let ?agent = "\<lparr>config = \<lparr>sessionId = ''3f2a'', targetDir = ''/w'', cwd = ''/w'',
                             debugMode = False, model = DEFAULT_GEMINI_MODEL_AUTO,
                             embeddingModel = DEFAULT_GEMINI_EMBEDDING_MODEL,
                             approvalMode = DEFAULT, initialized = True\<rparr>,
                  client = \<lparr>isInitialized = True,
                            sendMessageStream = (\<lambda>msg sig pid. Inr [])\<rparr>\<rparr>"
  have g: "create good_library ''/w'' = Inr ?agent"
    by (simp add: create_def good_library_def Config_initialize_def
        GeminiClient_initialize_def)
  show ?thesis
    using create_initialization [of bad_config_library "new_Error ''no settings''" "''/w''"]
      create_initialization [of bad_client_library "new_Error ''no credentials''" "''/w''"]
      create_initialization [of good_library _ "''/w''" ?agent] g
    by (simp add: bad_config_library_def bad_client_library_def good_library_def)
qed

section \<open>Where a cancellation comes from\<close>




section \<open>The message is not validated\<close>

text \<open>
  C10. Every call passes its message to the client as it is, the empty message included,
  and the facade raises no error of its own: when a call fails, the value it rejects with
  is what the \<^verbatim>\<open>catch\<close> clause makes of a value thrown by the call that opens the stream,
  thrown by the stream, built from an error event of the stream, or thrown by the callback.
\<close>

theorem sendMessage_forwards_message:
  "forwarded (sendMessage agent now msg onStream) = [msg] \<and>
   (fst (sendMessage agent now msg onStream) = Inl e \<longrightarrow>
      (\<exists>e0. e = catch_block e0 \<and>
         (opened_stream agent now msg = Inl e0 \<or>
          (\<exists>stream. opened_stream agent now msg = Inr stream \<and>
             (Throw e0 \<in> set stream \<or>
              (\<exists>err. Yield (Error err) \<in> set stream \<and>
                 e0 = new_Error (js_or (error_message err) ''Unknown error occurred'')) \<or>
              (\<exists>f tr. onStream = Some f \<and> f tr = Some e0))))))"
proof
  show "forwarded (sendMessage agent now msg onStream) = [msg]"
    by (simp add: forwarded_def sendMessage_stream_calls)
next
  show "fst (sendMessage agent now msg onStream) = Inl e \<longrightarrow>
      (\<exists>e0. e = catch_block e0 \<and>
         (opened_stream agent now msg = Inl e0 \<or>
          (\<exists>stream. opened_stream agent now msg = Inr stream \<and>
             (Throw e0 \<in> set stream \<or>
              (\<exists>err. Yield (Error err) \<in> set stream \<and>
                 e0 = new_Error (js_or (error_message err) ''Unknown error occurred'')) \<or>
              (\<exists>f tr. onStream = Some f \<and> f tr = Some e0)))))"
  proof
    assume a: "fst (sendMessage agent now msg onStream) = Inl e"
    show "\<exists>e0. e = catch_block e0 \<and>
         (opened_stream agent now msg = Inl e0 \<or>
          (\<exists>stream. opened_stream agent now msg = Inr stream \<and>
             (Throw e0 \<in> set stream \<or>
              (\<exists>err. Yield (Error err) \<in> set stream \<and>
                 e0 = new_Error (js_or (error_message err) ''Unknown error occurred'')) \<or>
              (\<exists>f tr. onStream = Some f \<and> f tr = Some e0))))"
    proof (cases "opened_stream agent now msg")
      case (Inl e')
      with a show ?thesis by (auto simp: sendMessage_opened)
    next
      case (Inr stream)
      from a obtain e0 where
        f: "fst (for_await onStream stream [] (initial_effects agent now msg)) = Inl e0"
        and e: "e = catch_block e0"
        by (cases "fst (for_await onStream stream [] (initial_effects agent now msg))")
          (auto simp: sendMessage_stream [OF Inr])
      from for_await_failure_origin [OF f] e Inr show ?thesis by blast
    qed
  qed
qed

theorem sendMessage_forwards_message_witness:
  "forwarded (sendMessage echo_agent 1700000000000 '''' None) = [''''] \<and>
   fst (sendMessage echo_agent 1700000000000 '''' None) = Inr '''' \<and>
   fst (sendMessage (agent_with (Inl (NonError ''offline''))) 1700000000000 '''' None) =
     Inl (NonError ''offline'')"
  using sendMessage_forwards_message [of echo_agent 1700000000000 "''''" None]
    sendMessage_forwards_message
      [of "agent_with (Inl (NonError ''offline''))" 1700000000000 "''''" None
        "NonError ''offline''"]
  by (simp add: sendMessage_opened catch_block_def)

end
